theory Spec2Isabelle
  imports Main "HOL-Library.Sublist"
begin

section \<open>Soft assertions of pytest-check: \<open>check_methods.py\<close>\<close>

subsection \<open>Python values, exception classes and strings\<close>

text \<open>
  The exception classes the module meets: the part of Python's built-in hierarchy it
  names or can raise itself, and classes defined by the user with one base class.
\<close>

datatype exc_class =
    BaseException
  | Exception
  | AssertionError
  | ValueError
  | TypeError
  | LookupError
  | IndexError
  | KeyboardInterrupt
  | UserExc string exc_class

text \<open>The direct base class; \<open>BaseException\<close> is the root.\<close>

fun base_of :: "exc_class \<Rightarrow> exc_class option" where
  "base_of BaseException = None"
| "base_of Exception = Some BaseException"
| "base_of AssertionError = Some Exception"
| "base_of ValueError = Some Exception"
| "base_of TypeError = Some Exception"
| "base_of LookupError = Some Exception"
| "base_of IndexError = Some LookupError"
| "base_of KeyboardInterrupt = Some BaseException"
| "base_of (UserExc n b) = Some b"

text \<open>\<open>issubclass(c, d)\<close> for a single class \<open>d\<close>: \<open>d\<close> is \<open>c\<close> or an ancestor of it.\<close>

fun issubclass1 :: "exc_class \<Rightarrow> exc_class \<Rightarrow> bool" where
  "issubclass1 (UserExc n b) d = (UserExc n b = d \<or> issubclass1 b d)"
| "issubclass1 IndexError d = (d = IndexError \<or> d = LookupError \<or> d = Exception \<or> d = BaseException)"
| "issubclass1 KeyboardInterrupt d = (d = KeyboardInterrupt \<or> d = BaseException)"
| "issubclass1 BaseException d = (d = BaseException)"
| "issubclass1 Exception d = (d = Exception \<or> d = BaseException)"
| "issubclass1 c d = (d = c \<or> d = Exception \<or> d = BaseException)"

text \<open>\<open>issubclass(c, ds)\<close> for a tuple of classes: some member of the tuple matches.\<close>

definition issubclass :: "exc_class \<Rightarrow> exc_class list \<Rightarrow> bool" where
  "issubclass c ds = list_ex (issubclass1 c) ds"

text \<open>
  An exception instance: its class, the text \<open>str()\<close> gives for it, and its truth value
  (\<open>bool()\<close> of it: true unless its class defines \<open>__bool__\<close> or \<open>__len__\<close> otherwise).
\<close>

datatype exc = Exc (exc_cls: exc_class) (exc_str: string) (exc_truth: bool)

text \<open>The values that reach a message slot or come back from \<open>__exit__\<close>.\<close>

datatype pyval = PyNone | PyBool bool | PyStr string | PyExc exc

text \<open>Truth value of a value, as \<open>if x:\<close> tests it.\<close>

fun truthy :: "pyval \<Rightarrow> bool" where
  "truthy PyNone = False"
| "truthy (PyBool b) = b"
| "truthy (PyStr s) = (s \<noteq> [])"
| "truthy (PyExc e) = exc_truth e"

text \<open>\<open>str(x)\<close>, which is what \<open>"{}".format(x)\<close> inserts.\<close>

fun py_str :: "pyval \<Rightarrow> string" where
  "py_str PyNone = ''None''"
| "py_str (PyBool b) = (if b then ''True'' else ''False'')"
| "py_str (PyStr s) = s"
| "py_str (PyExc e) = exc_str e"

text \<open>\<open>sub in s\<close> on strings.\<close>

fun str_in :: "string \<Rightarrow> string \<Rightarrow> bool" where
  "str_in sub [] = (sub = [])"
| "str_in sub (c # cs) = (prefix sub (c # cs) \<or> str_in sub cs)"

text \<open>\<open>str.isspace\<close> on one character of the Latin-1 range, and \<open>str.strip()\<close>.\<close>

definition py_isspace :: "char \<Rightarrow> bool" where
  "py_isspace c = ((of_char c :: nat) \<in> set [9, 10, 11, 12, 13, 28, 29, 30, 31, 32, 133, 160])"

definition strip :: "string \<Rightarrow> string" where
  "strip s = rev (dropWhile py_isspace (rev (dropWhile py_isspace s)))"

text \<open>\<open>sep.join(xs)\<close>.\<close>

fun join :: "string \<Rightarrow> string list \<Rightarrow> string" where
  "join sep [] = []"
| "join sep [x] = x"
| "join sep (x # y # ys) = x @ sep @ join sep (y # ys)"

text \<open>Decimal rendering of a line number, as \<open>"{}".format(line)\<close> gives it.\<close>

definition digit_char :: "nat \<Rightarrow> char" where
  "digit_char d = char_of (48 + d)"

fun str_nat :: "nat \<Rightarrow> string" where
  "str_nat n = (if n < 10 then [digit_char n] else str_nat (n div 10) @ [digit_char (n mod 10)])"

subsection \<open>Process-wide state and the Failure Recorder\<close>

text \<open>The module globals \<open>_stop_on_fail\<close> and \<open>_failures\<close>.\<close>

record globals =
  stop_on_fail :: bool
  failures :: "string list"


definition get_failures :: "globals \<Rightarrow> string list" where
  "get_failures g = failures g"

definition set_stop_on_fail :: "bool \<Rightarrow> globals \<Rightarrow> globals" where
  "set_stop_on_fail b g = g\<lparr>stop_on_fail := b\<rparr>"

subsection \<open>The pseudo-traceback\<close>

text \<open>
  One entry of \<open>inspect.stack()\<close>, fields 1 to 4 of it: file name, line number, function
  name and the list of source lines (\<open>None\<close> when the source is not available).
\<close>

record frame_info =
  filename :: string
  lineno :: nat
  funcname :: string
  code_context :: "string list option"

text \<open>
  \<open>get_full_context(level)\<close>. The stack \<open>stk\<close> is what \<open>inspect.stack()\<close> returns inside
  this function (entry 0 is this function's own frame); \<open>relpath\<close> stands for
  \<open>os.path.relpath\<close> in the current working directory. Indexing past the end of the
  stack raises IndexError, subscripting a missing source list raises TypeError.
\<close>

definition get_full_context ::
  "(string \<Rightarrow> string) \<Rightarrow> frame_info list \<Rightarrow> nat \<Rightarrow> exc + (string \<times> nat \<times> string \<times> string)" where
  "get_full_context relpath stk level =
     (if level < length stk then
        (let fr = stk ! level;
             fname = relpath (filename fr)
         in case code_context fr of
              None \<Rightarrow> Inl (Exc TypeError ([CHR 0x27] @ ''NoneType'' @ [CHR 0x27] @ '' object is not subscriptable'') True)
            | Some [] \<Rightarrow> Inl (Exc IndexError ''list index out of range'' True)
            | Some (c # cs) \<Rightarrow> Inr (fname, lineno fr, funcname fr, strip c))
      else Inl (Exc IndexError ''list index out of range'' True))"

text \<open>The line \<open>"{}:{} in {}() -> {}".format(file, line, func, context)\<close>.\<close>

definition format_line :: "string \<Rightarrow> nat \<Rightarrow> string \<Rightarrow> string \<Rightarrow> string" where
  "format_line file line func context =
     file @ '':'' @ str_nat line @ '' in '' @ func @ ''() -> '' @ context"

text \<open>
  The \<open>while\<close> loop of \<open>log_failure\<close>, with its variables \<open>level\<close>, \<open>pseudo_trace\<close> and
  \<open>func\<close>. It returns the collected lines, or the exception \<open>get_full_context\<close> raised.
\<close>

function walk ::
  "(string \<Rightarrow> string) \<Rightarrow> frame_info list \<Rightarrow> nat \<Rightarrow> string list \<Rightarrow> string \<Rightarrow> exc + string list" where
  "walk relpath stk level pseudo_trace func =
     (if \<not> str_in ''test_'' func then
        (case get_full_context relpath stk level of
           Inl e \<Rightarrow> Inl e
         | Inr (file, line, func', context) \<Rightarrow>
             if str_in ''site-packages'' file then Inr pseudo_trace
             else walk relpath stk (level + 1)
                    (pseudo_trace @ [format_line file line func' context]) func')
      else Inr pseudo_trace)"
  by pat_completeness auto
termination
  by (relation "measure (\<lambda>(relpath, stk, level, pseudo_trace, func). length stk - level)")
     (auto simp: get_full_context_def split: if_splits)

text \<open>
  \<open>log_failure(msg)\<close>: the entry is \<open>"FAILURE: {}\n{}"\<close> filled with the message (empty
  when the message is falsy) and the lines joined in reverse order.
\<close>

definition log_failure ::
  "(string \<Rightarrow> string) \<Rightarrow> frame_info list \<Rightarrow> pyval \<Rightarrow> globals \<Rightarrow> exc + globals" where
  "log_failure relpath stk m g =
     (case walk relpath stk 3 [] [] of
        Inl e \<Rightarrow> Inl e
      | Inr pseudo_trace \<Rightarrow>
          (let pseudo_trace_str = join [CHR 0x0A] (rev pseudo_trace);
               entry = ''FAILURE: '' @ (if truthy m then py_str m else []) @ [CHR 0x0A] @ pseudo_trace_str
           in Inr (g\<lparr>failures := failures g @ [entry]\<rparr>)))"

subsection \<open>The check-function wrapper\<close>

text \<open>
  \<open>check_func(func)\<close> applied to an argument list. The wrapped function is any Python
  function: it takes the globals, may change them, and returns or raises.
\<close>

definition check_func ::
  "(string \<Rightarrow> string) \<Rightarrow> frame_info list \<Rightarrow> ('a \<Rightarrow> globals \<Rightarrow> (exc + 'b) \<times> globals) \<Rightarrow>
     'a \<Rightarrow> globals \<Rightarrow> (exc + pyval) \<times> globals" where
  "check_func relpath stk func args g =
     (case func args g of
        (Inr r, g1) \<Rightarrow> (Inr (PyBool True), g1)
      | (Inl e, g1) \<Rightarrow>
          if issubclass (exc_cls e) [AssertionError] then
            (if stop_on_fail g1 then (Inl e, g1)
             else (case log_failure relpath stk (PyExc e) g1 of
                     Inl err \<Rightarrow> (Inl err, g1)
                   | Inr g2 \<Rightarrow> (Inr (PyBool False), g2)))
          else (Inl e, g1))"

subsection \<open>The soft-check scope\<close>

text \<open>
  The arguments \<open>(exc_type, exc_val, exc_tb)\<close> of \<open>__exit__\<close> are \<open>None\<close> when the block
  ended normally and describe the exception otherwise.
\<close>

definition exc_val :: "exc option \<Rightarrow> pyval" where
  "exc_val exc_info = (case exc_info of None \<Rightarrow> PyNone | Some e \<Rightarrow> PyExc e)"

text \<open>The test \<open>exc_type is not None and issubclass(exc_type, classes)\<close>.\<close>

definition exc_matches :: "exc option \<Rightarrow> exc_class list \<Rightarrow> bool" where
  "exc_matches exc_info classes =
     (case exc_info of None \<Rightarrow> False | Some e \<Rightarrow> issubclass (exc_cls e) classes)"

record CheckContextManager =
  msg :: pyval

text \<open>
  \<open>CheckContextManager.__exit__\<close>: the value returned (or the exception \<open>log_failure\<close>
  raised), the object and the globals afterwards.
\<close>

definition CheckContextManager_exit ::
  "(string \<Rightarrow> string) \<Rightarrow> frame_info list \<Rightarrow> CheckContextManager \<Rightarrow> exc option \<Rightarrow> globals \<Rightarrow>
     (exc + pyval) \<times> CheckContextManager \<times> globals" where
  "CheckContextManager_exit relpath stk self exc_info g =
     (if exc_matches exc_info [AssertionError] then
        (if stop_on_fail g then (Inr PyNone, self\<lparr>msg := PyNone\<rparr>, g)
         else
           (case (if msg self \<noteq> PyNone then log_failure relpath stk (msg self) g
                  else log_failure relpath stk (exc_val exc_info) g) of
              Inl err \<Rightarrow> (Inl err, self, g)
            | Inr g' \<Rightarrow> (Inr (PyBool True), self\<lparr>msg := PyNone\<rparr>, g')))
      else (Inr PyNone, self\<lparr>msg := PyNone\<rparr>, g))"


text \<open>The shared instance \<open>check = CheckContextManager()\<close>.\<close>

definition check :: CheckContextManager where
  "check = \<lparr>msg = PyNone\<rparr>"

text \<open>
  Python's \<open>with mgr: block\<close> for a manager whose \<open>__enter__\<close> returns itself, as both
  scopes of this module do: after a normal end of the block \<open>__exit__(None, None, None)\<close>
  is called and its value ignored; after an exception \<open>__exit__\<close> gets the exception, a
  truthy value suppresses it and any other value lets it propagate. An exception raised by
  \<open>__exit__\<close> itself replaces everything.
\<close>

definition with_stmt ::
  "('s \<Rightarrow> exc option \<Rightarrow> globals \<Rightarrow> (exc + pyval) \<times> 's \<times> globals) \<Rightarrow> 's \<Rightarrow>
     (globals \<Rightarrow> (exc + 'a) \<times> globals) \<Rightarrow> globals \<Rightarrow> (exc + unit) \<times> 's \<times> globals" where
  "with_stmt exit_fn self block g =
     (case block g of
        (Inr v, g1) \<Rightarrow>
          (case exit_fn self None g1 of
             (Inl err, self', g2) \<Rightarrow> (Inl err, self', g2)
           | (Inr r, self', g2) \<Rightarrow> (Inr (), self', g2))
      | (Inl e, g1) \<Rightarrow>
          (case exit_fn self (Some e) g1 of
             (Inl err, self', g2) \<Rightarrow> (Inl err, self', g2)
           | (Inr r, self', g2) \<Rightarrow>
               if truthy r then (Inr (), self', g2) else (Inl e, self', g2)))"

subsection \<open>The exception-expectation scope\<close>

record CheckRaisesContext =
  expected_excs :: "exc_class list"
  raises_msg :: pyval

text \<open>\<open>CheckRaisesContext.__init__(*expected_excs, msg=None)\<close> and \<open>raises\<close>.\<close>

definition CheckRaisesContext_init :: "exc_class list \<Rightarrow> pyval \<Rightarrow> CheckRaisesContext" where
  "CheckRaisesContext_init excs m = \<lparr>expected_excs = excs, raises_msg = m\<rparr>"

definition raises :: "exc_class list \<Rightarrow> pyval \<Rightarrow> CheckRaisesContext" where
  "raises excs m = CheckRaisesContext_init excs m"

text \<open>\<open>CheckRaisesContext.__exit__\<close>.\<close>

definition CheckRaisesContext_exit ::
  "(string \<Rightarrow> string) \<Rightarrow> frame_info list \<Rightarrow> CheckRaisesContext \<Rightarrow> exc option \<Rightarrow> globals \<Rightarrow>
     (exc + pyval) \<times> CheckRaisesContext \<times> globals" where
  "CheckRaisesContext_exit relpath stk self exc_info g =
     (if exc_matches exc_info (expected_excs self) then
        (Inr (PyBool True), self\<lparr>raises_msg := PyNone\<rparr>, g)
      else
        (if stop_on_fail g then (Inr PyNone, self\<lparr>raises_msg := PyNone\<rparr>, g)
         else
           (case (if raises_msg self \<noteq> PyNone then log_failure relpath stk (raises_msg self) g
                  else log_failure relpath stk (exc_val exc_info) g) of
              Inl err \<Rightarrow> (Inl err, self, g)
            | Inr g' \<Rightarrow> (Inr (PyBool True), self\<lparr>raises_msg := PyNone\<rparr>, g'))))"

text \<open>
  \<open>CheckRaisesContext.__call__(callable_, *args, msg=None)\<close>: the message is stored, the
  callable is called, and the object is returned; an exception of the callable leaves the
  method as any exception leaves a call.
\<close>

definition CheckRaisesContext_call ::
  "CheckRaisesContext \<Rightarrow> ('a \<Rightarrow> globals \<Rightarrow> (exc + 'b) \<times> globals) \<Rightarrow> 'a \<Rightarrow> pyval \<Rightarrow> globals \<Rightarrow>
     (exc + CheckRaisesContext) \<times> CheckRaisesContext \<times> globals" where
  "CheckRaisesContext_call self callable args m g =
     (let self1 = self\<lparr>raises_msg := m\<rparr>
      in case callable args g of
           (Inl e, g1) \<Rightarrow> (Inl e, self1, g1)
         | (Inr r, g1) \<Rightarrow> (Inr self1, self1, g1))"

subsection \<open>Notions used to state the properties\<close>

text \<open>A call-site frame \<open>(file, line, func, context)\<close> as the trace shows it, and its function name.\<close>

definition render_site :: "string \<times> nat \<times> string \<times> string \<Rightarrow> string" where
  "render_site s = (case s of (file, line, func, context) \<Rightarrow> format_line file line func context)"

definition site_func :: "string \<times> nat \<times> string \<times> string \<Rightarrow> string" where
  "site_func s = fst (snd (snd s))"


text \<open>Function bodies that only raise a given exception, or only return a given value.\<close>

definition raising :: "exc \<Rightarrow> 'a \<Rightarrow> globals \<Rightarrow> (exc + unit) \<times> globals" where
  "raising e args g = (Inl e, g)"

definition returning :: "'b \<Rightarrow> 'a \<Rightarrow> globals \<Rightarrow> (exc + 'b) \<times> globals" where
  "returning v args g = (Inr v, g)"

text \<open>
  Stacks as \<open>get_full_context\<close> sees them: its own frame, the frame of \<open>log_failure\<close>, the
  frame of the function that detected the failure, and the frames of its callers. In
  \<open>direct_stack\<close> a wrapped predicate is called in the test function itself; in
  \<open>helper_stack\<close> in a helper the test function calls; in \<open>script_stack\<close> at the top level
  of a script, outside any test runner; in \<open>check_stack\<close> and \<open>raises_stack\<close> a scope of
  the test function is left.
\<close>

definition recorder_frames :: "frame_info list" where
  "recorder_frames =
     [\<lparr>filename = ''src/pytest_check/check_methods.py'', lineno = 253,
        funcname = ''get_full_context'', code_context = Some [''    inspect.stack()'']\<rparr>,
      \<lparr>filename = ''src/pytest_check/check_methods.py'', lineno = 276,
        funcname = ''log_failure'', code_context = Some [''        get_full_context(level)'']\<rparr>]"

definition wrapper_frame :: frame_info where
  "wrapper_frame = \<lparr>filename = ''src/pytest_check/check_methods.py'', lineno = 89,
                     funcname = ''wrapper'', code_context = Some [''            log_failure(e)'']\<rparr>"

definition check_exit_frame :: frame_info where
  "check_exit_frame = \<lparr>filename = ''src/pytest_check/check_methods.py'', lineno = 66,
                        funcname = ''__exit__'', code_context = Some [''    log_failure(exc_val)'']\<rparr>"

definition raises_exit_frame :: frame_info where
  "raises_exit_frame = \<lparr>filename = ''src/pytest_check/check_methods.py'', lineno = 237,
                         funcname = ''__exit__'', code_context = Some [''    log_failure(exc_val)'']\<rparr>"

definition test_frame :: frame_info where
  "test_frame = \<lparr>filename = ''test_a.py'', lineno = 7, funcname = ''test_a'',
                  code_context = Some [''    f(1, 2)'' @ [CHR 0x0A]]\<rparr>"

definition helper_frame :: frame_info where
  "helper_frame = \<lparr>filename = ''util.py'', lineno = 12, funcname = ''f'',
                    code_context = Some [''    equal(a, b)'' @ [CHR 0x0A]]\<rparr>"

definition block_frame :: frame_info where
  "block_frame = \<lparr>filename = ''test_a.py'', lineno = 9, funcname = ''test_a'',
                   code_context = Some [''        g()'' @ [CHR 0x0A]]\<rparr>"

definition runner_frame :: frame_info where
  "runner_frame = \<lparr>filename = ''lib/site-packages/_pytest/python.py'', lineno = 180,
                    funcname = ''call'', code_context = Some [''    testfunction()'']\<rparr>"


definition direct_stack :: "frame_info list" where
  "direct_stack = recorder_frames @ [wrapper_frame, test_frame, runner_frame]"

definition helper_stack :: "frame_info list" where
  "helper_stack = recorder_frames @ [wrapper_frame, helper_frame, test_frame, runner_frame]"


definition check_stack :: "frame_info list" where
  "check_stack = recorder_frames @ [check_exit_frame, block_frame, runner_frame]"

definition raises_stack :: "frame_info list" where
  "raises_stack = recorder_frames @ [raises_exit_frame, block_frame, runner_frame]"






definition soft :: globals where
  "soft = \<lparr>stop_on_fail = False, failures = []\<rparr>"

section \<open>Properties\<close>

subsection \<open>Auxiliary facts\<close>

declare walk.simps [simp del]

lemma issubclass1_base:
  "issubclass1 c d = (c = d \<or> (case base_of c of None \<Rightarrow> False | Some b \<Rightarrow> issubclass1 b d))"
  by (cases c) auto

lemma walk_sites:
  "walk rp stk level tr func = Inr tr' \<Longrightarrow>
   \<exists>sites. tr' = tr @ map render_site sites
     \<and> (\<forall>i<length sites. get_full_context rp stk (level + i) = Inr (sites ! i))
     \<and> (\<forall>s\<in>set sites. \<not> str_in ''site-packages'' (fst s))
     \<and> (\<forall>i. Suc i < length sites \<longrightarrow> \<not> str_in ''test_'' (site_func (sites ! i)))
     \<and> (sites \<noteq> [] \<longrightarrow> \<not> str_in ''test_'' func)
     \<and> ((sites = [] \<and> str_in ''test_'' func) \<or> (sites \<noteq> [] \<and> str_in ''test_'' (site_func (last sites)))
          \<or> (\<exists>s. get_full_context rp stk (level + length sites) = Inr s \<and> str_in ''site-packages'' (fst s)))"
proof (induction rp stk level tr func arbitrary: tr' rule: walk.induct)
  case (1 rp stk level tr func)
  show ?case
  proof (cases "str_in ''test_'' func")
    case True
    with "1.prems" have "tr' = tr" by (simp add: walk.simps)
    with True show ?thesis by (intro exI[of _ "[]"]) simp
  next
    case nt: False
    with "1.prems" obtain fl ln fn ctx where
      g: "get_full_context rp stk level = Inr (fl, ln, fn, ctx)"
      by (simp add: walk.simps[of rp stk level] split: sum.splits prod.splits)
    show ?thesis
    proof (cases "str_in ''site-packages'' fl")
      case True
      with nt g "1.prems" have "tr' = tr" by (simp add: walk.simps[of rp stk level])
      with True g show ?thesis by (intro exI[of _ "[]"]) auto
    next
      case nsp: False
      with nt g "1.prems" have
        w: "walk rp stk (level + 1) (tr @ [format_line fl ln fn ctx]) fn = Inr tr'"
        by (simp add: walk.simps[of rp stk level])
      from "1.IH"[OF nt g refl refl refl nsp w] obtain sites where
        s1: "tr' = (tr @ [format_line fl ln fn ctx]) @ map render_site sites"
        and s2: "\<forall>i<length sites. get_full_context rp stk (level + 1 + i) = Inr (sites ! i)"
        and s3: "\<forall>s\<in>set sites. \<not> str_in ''site-packages'' (fst s)"
        and s4: "\<forall>i. Suc i < length sites \<longrightarrow> \<not> str_in ''test_'' (site_func (sites ! i))"
        and s5: "sites \<noteq> [] \<longrightarrow> \<not> str_in ''test_'' fn"
        and s6: "(sites = [] \<and> str_in ''test_'' fn) \<or> (sites \<noteq> [] \<and> str_in ''test_'' (site_func (last sites)))
          \<or> (\<exists>s. get_full_context rp stk (level + 1 + length sites) = Inr s \<and> str_in ''site-packages'' (fst s))"
        by blast
      let ?S = "(fl, ln, fn, ctx) # sites"
      have a: "tr' = tr @ map render_site ?S" using s1 by (simp add: render_site_def)
      have b: "\<forall>i<length ?S. get_full_context rp stk (level + i) = Inr (?S ! i)"
      proof (intro allI impI)
        fix i assume "i < length ?S"
        then show "get_full_context rp stk (level + i) = Inr (?S ! i)"
          using g s2 by (cases i) auto
      qed
      have c: "\<forall>s\<in>set ?S. \<not> str_in ''site-packages'' (fst s)" using s3 nsp by simp
      have d: "\<forall>i. Suc i < length ?S \<longrightarrow> \<not> str_in ''test_'' (site_func (?S ! i))"
      proof (intro allI impI)
        fix i assume h: "Suc i < length ?S"
        show "\<not> str_in ''test_'' (site_func (?S ! i))"
        proof (cases i)
          case 0
          with h have "sites \<noteq> []" by auto
          with s5 0 show ?thesis by (simp add: site_func_def)
        next
          case (Suc j)
          with h s4 show ?thesis by simp
        qed
      qed
      have e: "(?S = [] \<and> str_in ''test_'' func) \<or> (?S \<noteq> [] \<and> str_in ''test_'' (site_func (last ?S)))
          \<or> (\<exists>s. get_full_context rp stk (level + length ?S) = Inr s \<and> str_in ''site-packages'' (fst s))"
        using s6 by (auto simp: site_func_def)
      from a b c d e nt show ?thesis by (intro exI[of _ ?S]) blast
    qed
  qed
qed

lemma walk_direct: "walk id direct_stack 3 [] [] = Inr [''test_a.py:7 in test_a() -> f(1, 2)'']"
  by code_simp

lemma walk_helper:
  "walk id helper_stack 3 [] [] =
     Inr [''util.py:12 in f() -> equal(a, b)'', ''test_a.py:7 in test_a() -> f(1, 2)'']"
  by code_simp


lemma log_failure_Inr:
  assumes "log_failure rp stk m g = Inr g'"
  shows "\<exists>tr. walk rp stk 3 [] [] = Inr tr \<and>
           g' = g\<lparr>failures := failures g @
                  [''FAILURE: '' @ (if truthy m then py_str m else []) @ [CHR 0x0A] @
                   join [CHR 0x0A] (rev tr)]\<rparr>"
  using assms by (auto simp: log_failure_def Let_def split: sum.splits)

lemma log_failure_entry:
  assumes "log_failure rp stk m g = Inr g'"
  shows "\<exists>trace. g' = g\<lparr>failures := failures g @
                  [''FAILURE: '' @ (if truthy m then py_str m else []) @ [CHR 0x0A] @ trace]\<rparr>"
  using log_failure_Inr[OF assms] by blast


lemma log_failure_direct:
  "log_failure id direct_stack m g =
     Inr (g\<lparr>failures := failures g @
            [''FAILURE: '' @ (if truthy m then py_str m else []) @ [CHR 0x0A] @
             ''test_a.py:7 in test_a() -> f(1, 2)'']\<rparr>)"
  by (simp add: log_failure_def walk_direct)

lemma log_failure_helper:
  "log_failure id helper_stack m g =
     Inr (g\<lparr>failures := failures g @
            [''FAILURE: '' @ (if truthy m then py_str m else []) @ [CHR 0x0A] @
             ''test_a.py:7 in test_a() -> f(1, 2)'' @ [CHR 0x0A] @ ''util.py:12 in f() -> equal(a, b)'']\<rparr>)"
  by (simp add: log_failure_def walk_helper)


text \<open>
  \<open>log_failure\<close> returns whenever the stack has, at some depth \<open>k\<close> from 3 on, a frame of a
  test function or of installed library code, and the frames from depth 3 to \<open>k\<close> have
  their source line. On \<open>script_stack\<close> there is no such frame and it raises.
\<close>

lemma walk_returns:
  assumes "level \<le> k" and "k < length stk"
    and "\<forall>i. level \<le> i \<and> i \<le> k \<longrightarrow> (\<exists>c cs. code_context (stk ! i) = Some (c # cs))"
    and "str_in ''test_'' (funcname (stk ! k)) \<or> str_in ''site-packages'' (rp (filename (stk ! k)))"
  shows "\<exists>tr'. walk rp stk level tr func = Inr tr'"
  using assms
proof (induction "k - level" arbitrary: level tr func)
  case 0
  then have lk: "level = k" by simp
  show ?case
  proof (cases "str_in ''test_'' func")
    case True
    then show ?thesis by (simp add: walk.simps[of rp stk level])
  next
    case False
    from "0.prems" lk obtain c cs where c: "code_context (stk ! k) = Some (c # cs)" by blast
    with "0.prems" lk have
      g: "get_full_context rp stk level =
            Inr (rp (filename (stk ! k)), lineno (stk ! k), funcname (stk ! k), strip c)"
      by (simp add: get_full_context_def Let_def)
    show ?thesis
    proof (cases "str_in ''site-packages'' (rp (filename (stk ! k)))")
      case True
      with False g show ?thesis by (simp add: walk.simps[of rp stk level])
    next
      case nsp: False
      with "0.prems" have "str_in ''test_'' (funcname (stk ! k))" by simp
      with False g nsp show ?thesis
        by (simp add: walk.simps[of rp stk level] walk.simps[of rp stk "Suc level"])
    qed
  qed
next
  case (Suc n)
  then have lt: "level < k" by simp
  show ?case
  proof (cases "str_in ''test_'' func")
    case True
    then show ?thesis by (simp add: walk.simps[of rp stk level])
  next
    case False
    from Suc.prems obtain c cs where c: "code_context (stk ! level) = Some (c # cs)" by blast
    with Suc.prems lt have
      g: "get_full_context rp stk level =
            Inr (rp (filename (stk ! level)), lineno (stk ! level), funcname (stk ! level), strip c)"
      by (simp add: get_full_context_def Let_def)
    show ?thesis
    proof (cases "str_in ''site-packages'' (rp (filename (stk ! level)))")
      case True
      with False g show ?thesis by (simp add: walk.simps[of rp stk level])
    next
      case nsp: False
      have "n = k - Suc level" using Suc.hyps(2) by simp
      moreover have "Suc level \<le> k" using lt by simp
      moreover have "\<forall>i. Suc level \<le> i \<and> i \<le> k \<longrightarrow> (\<exists>c cs. code_context (stk ! i) = Some (c # cs))"
        using Suc.prems(3) by auto
      ultimately have "\<exists>tr'. walk rp stk (Suc level)
          (tr @ [format_line (rp (filename (stk ! level))) (lineno (stk ! level))
                   (funcname (stk ! level)) (strip c)]) (funcname (stk ! level)) = Inr tr'"
        using Suc.hyps(1) Suc.prems(2,4) by blast
      with False g nsp show ?thesis by (simp add: walk.simps[of rp stk level])
    qed
  qed
qed

lemma log_failure_returns:
  assumes "3 \<le> k" and "k < length stk"
    and "\<forall>i. 3 \<le> i \<and> i \<le> k \<longrightarrow> (\<exists>c cs. code_context (stk ! i) = Some (c # cs))"
    and "str_in ''test_'' (funcname (stk ! k)) \<or> str_in ''site-packages'' (rp (filename (stk ! k)))"
  shows "\<exists>g'. log_failure rp stk m g = Inr g'"
proof -
  from assms have "\<exists>tr'. walk rp stk 3 [] [] = Inr tr'" by (rule walk_returns)
  then obtain tr' where "walk rp stk 3 [] [] = Inr tr'" by blast
  then show ?thesis by (simp add: log_failure_def)
qed


lemma walk_raises: "walk id raises_stack 3 [] [] = Inr [''test_a.py:9 in test_a() -> g()'']"
  by code_simp


lemma log_failure_raises:
  "log_failure id raises_stack m g =
     Inr (g\<lparr>failures := failures g @
            [''FAILURE: '' @ (if truthy m then py_str m else []) @ [CHR 0x0A] @
             ''test_a.py:9 in test_a() -> g()'']\<rparr>)"
  by (simp add: log_failure_def walk_raises)





subsection \<open>The failure log\<close>




subsection \<open>The pseudo-traceback\<close>

lemma walk_test_frame:
  assumes g: "get_full_context rp stk level = Inr (fl, ln, fn, ctx)"
    and "\<not> str_in ''test_'' func" and "\<not> str_in ''site-packages'' fl" and "str_in ''test_'' fn"
  shows "walk rp stk level tr func = Inr (tr @ [format_line fl ln fn ctx])"
  using assms
  by (simp add: walk.simps[of rp stk level] walk.simps[of rp stk "Suc level"])

text \<open>
  Claim C9. Whenever \<open>log_failure\<close> logs a failure, the record it appends is the message
  followed by the trace of some call sites \<open>sites\<close>: they are the frames at depth 3, 4, ... of
  the stack in this order, each rendered as \<open>file:line in func() -> context\<close> and joined in
  reverse order; none of them has a path in installed library code; only the last one can
  carry the test-function marker; and the walk stopped either because the last one carries
  it or because the next frame is in installed library code (and is left out). So when
  the collection ended at a test function, its frame is the first line of the trace. For
  a failure detected directly in a test function outside installed library code (the
  frame at depth 3), \<open>log_failure\<close> always returns and the trace is that frame's line.
\<close>

theorem pseudo_trace_shape:
  "(log_failure rp stk m g = Inr g' \<longrightarrow>
      (\<exists>sites.
         get_failures g' = get_failures g @
           [''FAILURE: '' @ (if truthy m then py_str m else []) @ [CHR 0x0A] @
            join [CHR 0x0A] (rev (map render_site sites))]
       \<and> (\<forall>i<length sites. get_full_context rp stk (3 + i) = Inr (sites ! i))
       \<and> (\<forall>s\<in>set sites. \<not> str_in ''site-packages'' (fst s))
       \<and> (\<forall>i. Suc i < length sites \<longrightarrow> \<not> str_in ''test_'' (site_func (sites ! i)))
       \<and> ((sites \<noteq> [] \<and> str_in ''test_'' (site_func (last sites)))
            \<or> (\<exists>s. get_full_context rp stk (3 + length sites) = Inr s
                     \<and> str_in ''site-packages'' (fst s)))
       \<and> (sites \<noteq> [] \<longrightarrow> hd (rev (map render_site sites)) = render_site (last sites))))
   \<and> (get_full_context rp stk 3 = Inr (fl, ln, fn, ctx) \<and> str_in ''test_'' fn
        \<and> \<not> str_in ''site-packages'' fl \<longrightarrow>
      log_failure rp stk m g =
        Inr (g\<lparr>failures := failures g @
               [''FAILURE: '' @ (if truthy m then py_str m else []) @ [CHR 0x0A] @
                format_line fl ln fn ctx]\<rparr>))"
proof (intro conjI impI)
  assume lf: "log_failure rp stk m g = Inr g'"
  from log_failure_Inr[OF lf] obtain tr where
    w: "walk rp stk 3 [] [] = Inr tr"
    and g': "g' = g\<lparr>failures := failures g @
                  [''FAILURE: '' @ (if truthy m then py_str m else []) @ [CHR 0x0A] @
                   join [CHR 0x0A] (rev tr)]\<rparr>"
    by blast
  from walk_sites[OF w] obtain sites where
    s1: "tr = map render_site sites"
    and s2: "\<forall>i<length sites. get_full_context rp stk (3 + i) = Inr (sites ! i)"
    and s3: "\<forall>s\<in>set sites. \<not> str_in ''site-packages'' (fst s)"
    and s4: "\<forall>i. Suc i < length sites \<longrightarrow> \<not> str_in ''test_'' (site_func (sites ! i))"
    and s6: "(sites = [] \<and> str_in ''test_'' []) \<or> (sites \<noteq> [] \<and> str_in ''test_'' (site_func (last sites)))
          \<or> (\<exists>s. get_full_context rp stk (3 + length sites) = Inr s \<and> str_in ''site-packages'' (fst s))"
    by auto
  have a: "get_failures g' = get_failures g @
           [''FAILURE: '' @ (if truthy m then py_str m else []) @ [CHR 0x0A] @
            join [CHR 0x0A] (rev (map render_site sites))]"
    using g' s1 by (simp add: get_failures_def)
  have e: "(sites \<noteq> [] \<and> str_in ''test_'' (site_func (last sites)))
            \<or> (\<exists>s. get_full_context rp stk (3 + length sites) = Inr s
                     \<and> str_in ''site-packages'' (fst s))"
    using s6 by simp
  have f: "sites \<noteq> [] \<longrightarrow> hd (rev (map render_site sites)) = render_site (last sites)"
    by (simp add: hd_rev last_map)
  from a s2 s3 s4 e f
  show "\<exists>sites.
         get_failures g' = get_failures g @
           [''FAILURE: '' @ (if truthy m then py_str m else []) @ [CHR 0x0A] @
            join [CHR 0x0A] (rev (map render_site sites))]
       \<and> (\<forall>i<length sites. get_full_context rp stk (3 + i) = Inr (sites ! i))
       \<and> (\<forall>s\<in>set sites. \<not> str_in ''site-packages'' (fst s))
       \<and> (\<forall>i. Suc i < length sites \<longrightarrow> \<not> str_in ''test_'' (site_func (sites ! i)))
       \<and> ((sites \<noteq> [] \<and> str_in ''test_'' (site_func (last sites)))
            \<or> (\<exists>s. get_full_context rp stk (3 + length sites) = Inr s
                     \<and> str_in ''site-packages'' (fst s)))
       \<and> (sites \<noteq> [] \<longrightarrow> hd (rev (map render_site sites)) = render_site (last sites))"
    by (intro exI[of _ sites]) blast
next
  assume h: "get_full_context rp stk 3 = Inr (fl, ln, fn, ctx) \<and> str_in ''test_'' fn
        \<and> \<not> str_in ''site-packages'' fl"
  then have "walk rp stk 3 [] [] = Inr ([] @ [format_line fl ln fn ctx])"
    by (intro walk_test_frame) auto
  then show "log_failure rp stk m g =
        Inr (g\<lparr>failures := failures g @
               [''FAILURE: '' @ (if truthy m then py_str m else []) @ [CHR 0x0A] @
                format_line fl ln fn ctx]\<rparr>)"
    by (simp add: log_failure_def)
qed

lemma gfc_direct: "get_full_context id direct_stack 3 = Inr (''test_a.py'', 7, ''test_a'', ''f(1, 2)'')"
  by code_simp

lemma format_line_direct:
  "format_line ''test_a.py'' 7 ''test_a'' ''f(1, 2)'' = ''test_a.py:7 in test_a() -> f(1, 2)''"
  by code_simp

theorem pseudo_trace_shape_witness:
  "log_failure id helper_stack (PyStr ''custom'') soft =
     Inr \<lparr>stop_on_fail = False, failures =
       [''FAILURE: custom'' @ [CHR 0x0A] @ ''test_a.py:7 in test_a() -> f(1, 2)'' @ [CHR 0x0A] @
        ''util.py:12 in f() -> equal(a, b)'']\<rparr>
   \<and> get_full_context id direct_stack 3 = Inr (''test_a.py'', 7, ''test_a'', ''f(1, 2)'')
   \<and> str_in ''test_'' ''test_a'' \<and> \<not> str_in ''site-packages'' ''test_a.py''
   \<and> log_failure id direct_stack (PyStr ''custom'') soft =
        Inr \<lparr>stop_on_fail = False, failures =
          [''FAILURE: custom'' @ [CHR 0x0A] @ ''test_a.py:7 in test_a() -> f(1, 2)'']\<rparr>
   \<and> (\<exists>sites. join [CHR 0x0A] (rev (map render_site sites)) =
          ''test_a.py:7 in test_a() -> f(1, 2)'' @ [CHR 0x0A] @ ''util.py:12 in f() -> equal(a, b)''
         \<and> (\<forall>s\<in>set sites. \<not> str_in ''site-packages'' (fst s)))"
proof -
  let ?G = "\<lparr>stop_on_fail = False, failures =
       [''FAILURE: custom'' @ [CHR 0x0A] @ ''test_a.py:7 in test_a() -> f(1, 2)'' @ [CHR 0x0A] @
        ''util.py:12 in f() -> equal(a, b)'']\<rparr>"
  have h1: "log_failure id helper_stack (PyStr ''custom'') soft = Inr ?G"
    by (simp add: log_failure_helper soft_def)
  have h2: "get_full_context id direct_stack 3 = Inr (''test_a.py'', 7, ''test_a'', ''f(1, 2)'')"
    by (rule gfc_direct)
  have h3: "str_in ''test_'' ''test_a''" by simp
  have h4: "\<not> str_in ''site-packages'' ''test_a.py''" by simp
  note t = pseudo_trace_shape[where rp = id and stk = helper_stack and m = "PyStr ''custom''"
      and g = soft and g' = ?G, THEN conjunct1, rule_format, OF h1]
  note u = pseudo_trace_shape[where rp = id and stk = direct_stack and m = "PyStr ''custom''"
      and g = soft and fl = "''test_a.py''" and ln = 7 and fn = "''test_a''"
      and ctx = "''f(1, 2)''", THEN conjunct2, rule_format, OF conjI[OF h2 conjI[OF h3 h4]]]
  from u have c2: "log_failure id direct_stack (PyStr ''custom'') soft =
        Inr \<lparr>stop_on_fail = False, failures =
          [''FAILURE: custom'' @ [CHR 0x0A] @ ''test_a.py:7 in test_a() -> f(1, 2)'']\<rparr>"
    by (simp add: soft_def format_line_direct)
  from t obtain sites where
     a: "get_failures ?G = get_failures soft @
           [''FAILURE: '' @ (if truthy (PyStr ''custom'') then py_str (PyStr ''custom'') else []) @
            [CHR 0x0A] @ join [CHR 0x0A] (rev (map render_site sites))]"
     and c: "\<forall>s\<in>set sites. \<not> str_in ''site-packages'' (fst s)"
    by blast
  from a have a': "join [CHR 0x0A] (rev (map render_site sites)) =
          ''test_a.py:7 in test_a() -> f(1, 2)'' @ [CHR 0x0A] @ ''util.py:12 in f() -> equal(a, b)''"
    by (simp add: get_failures_def soft_def)
  from h1 h2 h3 h4 c2 a' c show ?thesis by blast
qed

lemma log_failure_appends:
  assumes "log_failure rp stk m g = Inr g'"
  shows "\<exists>trace. get_failures g' = get_failures g @
           [''FAILURE: '' @ (if truthy m then py_str m else []) @ [CHR 0x0A] @ trace]"
  using log_failure_entry[OF assms] by (auto simp: get_failures_def)

subsection \<open>The check-function wrapper\<close>

text \<open>
  Claim C1, as amended. For every wrapped function and argument list: if the body returns,
  the wrapper returns \<open>True\<close> and the globals, the failure log among them, are as the body
  left them; if the body raises an exception that is not an assertion failure, that
  exception leaves the wrapper and nothing is logged; if it raises an assertion failure in
  strict mode, the same failure is raised again and nothing is logged; if it raises an
  assertion failure in non-strict mode and \<open>log_failure\<close> returns, the wrapper returns
  \<open>False\<close> and the log has grown by one record that carries the failure's text, or no
  text when the failure is a falsy value.
\<close>

theorem check_func_contract:
  "(func args g = (Inr r, ga) \<longrightarrow>
      check_func rp stk func args g = (Inr (PyBool True), ga))
   \<and> (func args g = (Inl e, ga) \<and> \<not> issubclass (exc_cls e) [AssertionError] \<longrightarrow>
      check_func rp stk func args g = (Inl e, ga))
   \<and> (func args g = (Inl e, ga) \<and> issubclass (exc_cls e) [AssertionError] \<and> stop_on_fail ga \<longrightarrow>
      check_func rp stk func args g = (Inl e, ga))
   \<and> (func args g = (Inl e, ga) \<and> issubclass (exc_cls e) [AssertionError] \<and> \<not> stop_on_fail ga
        \<and> log_failure rp stk (PyExc e) ga = Inr gb \<longrightarrow>
      check_func rp stk func args g = (Inr (PyBool False), gb)
      \<and> (\<exists>trace. get_failures gb = get_failures ga @
                     [''FAILURE: '' @ (if exc_truth e then exc_str e else []) @ [CHR 0x0A] @ trace]))"
proof (intro conjI impI)
  assume "func args g = (Inr r, ga)"
  then show "check_func rp stk func args g = (Inr (PyBool True), ga)"
    by (simp add: check_func_def)
next
  assume "func args g = (Inl e, ga) \<and> \<not> issubclass (exc_cls e) [AssertionError]"
  then show "check_func rp stk func args g = (Inl e, ga)"
    by (simp add: check_func_def)
next
  assume "func args g = (Inl e, ga) \<and> issubclass (exc_cls e) [AssertionError] \<and> stop_on_fail ga"
  then show "check_func rp stk func args g = (Inl e, ga)"
    by (simp add: check_func_def)
next
  assume h: "func args g = (Inl e, ga) \<and> issubclass (exc_cls e) [AssertionError] \<and> \<not> stop_on_fail ga
        \<and> log_failure rp stk (PyExc e) ga = Inr gb"
  then show "check_func rp stk func args g = (Inr (PyBool False), gb)"
    by (simp add: check_func_def)
  from h have "log_failure rp stk (PyExc e) ga = Inr gb" by simp
  from log_failure_appends[OF this]
  show "\<exists>trace. get_failures gb = get_failures ga @
                     [''FAILURE: '' @ (if exc_truth e then exc_str e else []) @ [CHR 0x0A] @ trace]"
    by (cases "exc_truth e") auto
qed

theorem check_func_contract_counterexample:
  "\<not> issubclass (exc_cls (Exc TypeError ''unorderable'' True)) [AssertionError]
   \<and> raising (Exc TypeError ''unorderable'' True) () soft = (Inl (Exc TypeError ''unorderable'' True), soft)
   \<and> check_func id direct_stack (raising (Exc TypeError ''unorderable'' True)) () soft
        = (Inl (Exc TypeError ''unorderable'' True), soft)
   \<and> fst (check_func id direct_stack (raising (Exc TypeError ''unorderable'' True)) () soft)
        \<noteq> Inr (PyBool True)"
  by (simp add: check_func_def raising_def issubclass_def)

theorem check_func_contract_witness:
  "returning PyNone () soft = (Inr PyNone, soft)
   \<and> check_func id direct_stack (returning PyNone) () soft = (Inr (PyBool True), soft)
   \<and> \<not> issubclass (exc_cls (Exc TypeError ''unorderable'' True)) [AssertionError]
   \<and> check_func id direct_stack (raising (Exc TypeError ''unorderable'' True)) () soft
        = (Inl (Exc TypeError ''unorderable'' True), soft)
   \<and> issubclass (exc_cls (Exc AssertionError ''custom'' True)) [AssertionError]
   \<and> stop_on_fail (set_stop_on_fail True soft)
   \<and> check_func id direct_stack (raising (Exc AssertionError ''custom'' True)) () (set_stop_on_fail True soft)
        = (Inl (Exc AssertionError ''custom'' True), set_stop_on_fail True soft)
   \<and> \<not> stop_on_fail soft
   \<and> log_failure id direct_stack (PyExc (Exc AssertionError ''custom'' True)) soft =
        Inr \<lparr>stop_on_fail = False, failures =
              [''FAILURE: custom'' @ [CHR 0x0A] @ ''test_a.py:7 in test_a() -> f(1, 2)'']\<rparr>
   \<and> check_func id direct_stack (raising (Exc AssertionError ''custom'' True)) () soft
        = (Inr (PyBool False), \<lparr>stop_on_fail = False, failures =
              [''FAILURE: custom'' @ [CHR 0x0A] @ ''test_a.py:7 in test_a() -> f(1, 2)'']\<rparr>)"
proof -
  let ?T = "Exc TypeError ''unorderable'' True"
  let ?A = "Exc AssertionError ''custom'' True"
  let ?G = "\<lparr>stop_on_fail = False, failures =
              [''FAILURE: custom'' @ [CHR 0x0A] @ ''test_a.py:7 in test_a() -> f(1, 2)'']\<rparr>"
  have r: "(returning PyNone :: unit \<Rightarrow> globals \<Rightarrow> (exc + pyval) \<times> globals) () soft = (Inr PyNone, soft)"
    by (simp add: returning_def)
  have t: "raising ?T () soft = (Inl ?T, soft) \<and> \<not> issubclass (exc_cls ?T) [AssertionError]"
    by (simp add: raising_def issubclass_def)
  have s: "raising ?A () (set_stop_on_fail True soft) = (Inl ?A, set_stop_on_fail True soft)
            \<and> issubclass (exc_cls ?A) [AssertionError] \<and> stop_on_fail (set_stop_on_fail True soft)"
    by (simp add: raising_def issubclass_def set_stop_on_fail_def)
  have l: "log_failure id direct_stack (PyExc ?A) soft = Inr ?G"
    by (simp add: log_failure_direct soft_def)
  have n: "raising ?A () soft = (Inl ?A, soft)
            \<and> issubclass (exc_cls ?A) [AssertionError] \<and> \<not> stop_on_fail soft
            \<and> log_failure id direct_stack (PyExc ?A) soft = Inr ?G"
    using l by (simp add: raising_def issubclass_def soft_def)
  note c1 = check_func_contract[where func = "returning PyNone" and args = "()" and g = soft
      and r = PyNone and ga = soft and rp = id and stk = direct_stack,
      THEN conjunct1, rule_format, OF r]
  note c2 = check_func_contract[where func = "raising ?T" and args = "()" and g = soft
      and e = ?T and ga = soft and rp = id and stk = direct_stack,
      THEN conjunct2, THEN conjunct1, rule_format, OF t]
  note c3 = check_func_contract[where func = "raising ?A" and args = "()"
      and g = "set_stop_on_fail True soft" and e = ?A and ga = "set_stop_on_fail True soft"
      and rp = id and stk = direct_stack,
      THEN conjunct2, THEN conjunct2, THEN conjunct1, rule_format, OF s]
  note c4 = check_func_contract[where func = "raising ?A" and args = "()" and g = soft
      and e = ?A and ga = soft and gb = ?G and rp = id and stk = direct_stack,
      THEN conjunct2, THEN conjunct2, THEN conjunct2, rule_format, OF n, THEN conjunct1]
  from r c1 t c2 s c3 n c4 show ?thesis by blast
qed

subsection \<open>The soft-check scope\<close>




subsection \<open>Strict mode\<close>

text \<open>
  Claim C8. With strict mode enabled, an assertion failure raised by a wrapped predicate
  leaves the wrapper as that same exception, and an assertion failure raised in the block
  of the soft-check scope leaves the \<open>with\<close> statement as that same exception; in both
  cases the globals are those the failing body left, so for a body that only raises the
  failure log after the attempt is the log before it.
\<close>

theorem strict_mode_fail_fast:
  assumes "issubclass (exc_cls e) [AssertionError]"
  shows "(func args (set_stop_on_fail True g) = (Inl e, ga) \<and> stop_on_fail ga \<longrightarrow>
            check_func rp stk func args (set_stop_on_fail True g) = (Inl e, ga))
     \<and> (block (set_stop_on_fail True g) = (Inl e, ga) \<and> stop_on_fail ga \<longrightarrow>
            with_stmt (CheckContextManager_exit rp stk) self block (set_stop_on_fail True g) =
              (Inl e, self\<lparr>msg := PyNone\<rparr>, ga))
     \<and> fst (check_func rp stk (raising e) args (set_stop_on_fail True g)) = Inl e
     \<and> get_failures (snd (check_func rp stk (raising e) args (set_stop_on_fail True g))) =
          get_failures g
     \<and> fst (with_stmt (CheckContextManager_exit rp stk) self (raising e ()) (set_stop_on_fail True g))
          = Inl e
     \<and> get_failures (snd (snd (with_stmt (CheckContextManager_exit rp stk) self (raising e ())
          (set_stop_on_fail True g)))) = get_failures g"
  using assms
  by (simp add: check_func_def with_stmt_def CheckContextManager_exit_def exc_matches_def
      raising_def set_stop_on_fail_def get_failures_def)

theorem strict_mode_fail_fast_witness:
  "issubclass (exc_cls (Exc AssertionError ''2 == 3'' True)) [AssertionError]
   \<and> check_func id direct_stack (raising (Exc AssertionError ''2 == 3'' True)) ()
        (set_stop_on_fail True soft) = (Inl (Exc AssertionError ''2 == 3'' True), set_stop_on_fail True soft)
   \<and> with_stmt (CheckContextManager_exit id check_stack) check (raising (Exc AssertionError ''2 == 3'' True) ())
        (set_stop_on_fail True soft) = (Inl (Exc AssertionError ''2 == 3'' True), check, set_stop_on_fail True soft)
   \<and> get_failures (set_stop_on_fail True soft) = get_failures soft"
proof -
  let ?A = "Exc AssertionError ''2 == 3'' True"
  have a: "issubclass (exc_cls ?A) [AssertionError]" by (simp add: issubclass_def)
  have b: "raising ?A () (set_stop_on_fail True soft) = (Inl ?A, set_stop_on_fail True soft)
           \<and> stop_on_fail (set_stop_on_fail True soft)"
    by (simp add: raising_def set_stop_on_fail_def)
  note t1 = strict_mode_fail_fast[OF a, where func = "raising ?A" and args = "()" and g = soft
      and ga = "set_stop_on_fail True soft" and rp = id and stk = direct_stack,
      THEN conjunct1, rule_format, OF b]
  note t2 = strict_mode_fail_fast[OF a, where block = "raising ?A ()" and g = soft
      and ga = "set_stop_on_fail True soft" and rp = id and stk = check_stack and self = check,
      THEN conjunct2, THEN conjunct1, rule_format, OF b]
  have c: "check\<lparr>msg := PyNone\<rparr> = check" by (simp add: check_def)
  have d: "get_failures (set_stop_on_fail True soft) = get_failures soft"
    by (simp add: get_failures_def set_stop_on_fail_def)
  from a t1 t2 d show ?thesis unfolding c by blast
qed

subsection \<open>The exception-expectation scope\<close>

lemma log_failure_one_more:
  assumes "log_failure rp stk m g = Inr g'"
  shows "\<exists>entry. get_failures g' = get_failures g @ [entry]"
  using log_failure_appends[OF assms] by blast

lemma with_raises_exit:
  assumes "block g = (Inl e, ga)"
  shows "with_stmt (CheckRaisesContext_exit rp stk) ctx block g =
     (if issubclass (exc_cls e) (expected_excs ctx) then (Inr (), ctx\<lparr>raises_msg := PyNone\<rparr>, ga)
      else if stop_on_fail ga then (Inl e, ctx\<lparr>raises_msg := PyNone\<rparr>, ga)
      else (case log_failure rp stk (if raises_msg ctx \<noteq> PyNone then raises_msg ctx else PyExc e) ga of
              Inl err \<Rightarrow> (Inl err, ctx, ga)
            | Inr gb \<Rightarrow> (Inr (), ctx\<lparr>raises_msg := PyNone\<rparr>, gb)))"
  using assms
  by (auto simp: with_stmt_def CheckRaisesContext_exit_def exc_matches_def exc_val_def
      split: sum.splits)

lemma with_check_exit_other:
  assumes "block g = (Inl e, ga)" and "\<not> issubclass (exc_cls e) [AssertionError]"
  shows "with_stmt (CheckContextManager_exit rp stk) self block g = (Inl e, self\<lparr>msg := PyNone\<rparr>, ga)"
  using assms
  by (simp add: with_stmt_def CheckContextManager_exit_def exc_matches_def)




text \<open>
  Claim C5, as amended. An exception that is not an assertion failure always leaves the
  check-function wrapper and the soft-check scope, in both modes, and neither logs it. In
  an exception-expectation scope that does not expect it, it leaves the scope unlogged in
  strict mode only: in non-strict mode the scope calls \<open>log_failure\<close> and, when that
  returns, has logged it as one failure and suppresses it.
\<close>

theorem unexpected_exception_handling:
  assumes "\<not> issubclass (exc_cls e) [AssertionError]"
  shows "(func args g = (Inl e, ga) \<longrightarrow> check_func rp stk func args g = (Inl e, ga))
   \<and> (block g = (Inl e, ga) \<longrightarrow>
        with_stmt (CheckContextManager_exit rp stk) self block g = (Inl e, self\<lparr>msg := PyNone\<rparr>, ga))
   \<and> (block g = (Inl e, ga) \<and> \<not> issubclass (exc_cls e) (expected_excs ctx) \<and> stop_on_fail ga \<longrightarrow>
        with_stmt (CheckRaisesContext_exit rp stk) ctx block g =
          (Inl e, ctx\<lparr>raises_msg := PyNone\<rparr>, ga))
   \<and> (block g = (Inl e, ga) \<and> \<not> issubclass (exc_cls e) (expected_excs ctx) \<and> \<not> stop_on_fail ga
        \<and> log_failure rp stk (if raises_msg ctx \<noteq> PyNone then raises_msg ctx else PyExc e) ga = Inr gb \<longrightarrow>
        with_stmt (CheckRaisesContext_exit rp stk) ctx block g =
          (Inr (), ctx\<lparr>raises_msg := PyNone\<rparr>, gb)
        \<and> (\<exists>entry. get_failures gb = get_failures ga @ [entry]))"
proof (intro conjI impI)
  assume "func args g = (Inl e, ga)"
  with assms show "check_func rp stk func args g = (Inl e, ga)"
    by (simp add: check_func_def)
next
  assume "block g = (Inl e, ga)"
  with assms
  show "with_stmt (CheckContextManager_exit rp stk) self block g = (Inl e, self\<lparr>msg := PyNone\<rparr>, ga)"
    by (rule with_check_exit_other[rotated])
next
  assume "block g = (Inl e, ga) \<and> \<not> issubclass (exc_cls e) (expected_excs ctx) \<and> stop_on_fail ga"
  then show "with_stmt (CheckRaisesContext_exit rp stk) ctx block g =
          (Inl e, ctx\<lparr>raises_msg := PyNone\<rparr>, ga)"
    by (simp add: with_raises_exit)
next
  assume a: "block g = (Inl e, ga) \<and> \<not> issubclass (exc_cls e) (expected_excs ctx) \<and> \<not> stop_on_fail ga
        \<and> log_failure rp stk (if raises_msg ctx \<noteq> PyNone then raises_msg ctx else PyExc e) ga = Inr gb"
  then show "with_stmt (CheckRaisesContext_exit rp stk) ctx block g =
          (Inr (), ctx\<lparr>raises_msg := PyNone\<rparr>, gb)"
    by (auto simp: with_raises_exit split: if_splits)
  from a have "log_failure rp stk (if raises_msg ctx \<noteq> PyNone then raises_msg ctx else PyExc e) ga = Inr gb"
    by simp
  then show "\<exists>entry. get_failures gb = get_failures ga @ [entry]"
    by (rule log_failure_one_more)
qed

theorem unexpected_exception_handling_counterexample:
  "\<not> issubclass (exc_cls (Exc TypeError ''worse'' True)) [AssertionError]
   \<and> \<not> issubclass (exc_cls (Exc TypeError ''worse'' True)) (expected_excs (raises [ValueError] PyNone))
   \<and> \<not> stop_on_fail soft
   \<and> with_stmt (CheckRaisesContext_exit id raises_stack) (raises [ValueError] PyNone)
        (raising (Exc TypeError ''worse'' True) ()) soft =
        (Inr (), raises [ValueError] PyNone, \<lparr>stop_on_fail = False, failures =
           [''FAILURE: worse'' @ [CHR 0x0A] @ ''test_a.py:9 in test_a() -> g()'']\<rparr>)
   \<and> get_failures soft = []"
  by (simp add: with_stmt_def CheckRaisesContext_exit_def exc_matches_def exc_val_def raising_def
      raises_def CheckRaisesContext_init_def issubclass_def soft_def log_failure_raises
      get_failures_def)

theorem unexpected_exception_handling_witness:
  "\<not> issubclass (exc_cls (Exc TypeError ''worse'' True)) [AssertionError]
   \<and> check_func id direct_stack (raising (Exc TypeError ''worse'' True)) () soft =
        (Inl (Exc TypeError ''worse'' True), soft)
   \<and> with_stmt (CheckContextManager_exit id check_stack) check (raising (Exc TypeError ''worse'' True) ()) soft =
        (Inl (Exc TypeError ''worse'' True), check, soft)
   \<and> \<not> issubclass (exc_cls (Exc TypeError ''worse'' True)) (expected_excs (raises [ValueError] PyNone))
   \<and> stop_on_fail (set_stop_on_fail True soft)
   \<and> with_stmt (CheckRaisesContext_exit id raises_stack) (raises [ValueError] PyNone)
        (raising (Exc TypeError ''worse'' True) ()) (set_stop_on_fail True soft) =
        (Inl (Exc TypeError ''worse'' True), raises [ValueError] PyNone, set_stop_on_fail True soft)
   \<and> \<not> stop_on_fail soft
   \<and> with_stmt (CheckRaisesContext_exit id raises_stack) (raises [ValueError] PyNone)
        (raising (Exc TypeError ''worse'' True) ()) soft =
        (Inr (), raises [ValueError] PyNone, \<lparr>stop_on_fail = False, failures =
           [''FAILURE: worse'' @ [CHR 0x0A] @ ''test_a.py:9 in test_a() -> g()'']\<rparr>)"
proof -
  let ?T = "Exc TypeError ''worse'' True"
  let ?R = "raises [ValueError] PyNone"
  let ?G = "\<lparr>stop_on_fail = False, failures =
           [''FAILURE: worse'' @ [CHR 0x0A] @ ''test_a.py:9 in test_a() -> g()'']\<rparr>"
  have n: "\<not> issubclass (exc_cls ?T) [AssertionError]" by (simp add: issubclass_def)
  have r: "raising ?T () soft = (Inl ?T, soft)" by (simp add: raising_def)
  have u: "\<not> issubclass (exc_cls ?T) (expected_excs ?R)"
    by (simp add: issubclass_def raises_def CheckRaisesContext_init_def)
  have st: "stop_on_fail (set_stop_on_fail True soft)" by (simp add: set_stop_on_fail_def)
  have ns: "\<not> stop_on_fail soft" by (simp add: soft_def)
  have c: "raising ?T () (set_stop_on_fail True soft) = (Inl ?T, set_stop_on_fail True soft)
       \<and> \<not> issubclass (exc_cls ?T) (expected_excs ?R) \<and> stop_on_fail (set_stop_on_fail True soft)"
    using u st by (simp add: raising_def)
  have d: "raising ?T () soft = (Inl ?T, soft)
       \<and> \<not> issubclass (exc_cls ?T) (expected_excs ?R) \<and> \<not> stop_on_fail soft
       \<and> log_failure id raises_stack (if raises_msg ?R \<noteq> PyNone then raises_msg ?R else PyExc ?T) soft = Inr ?G"
    using u ns r by (simp add: raises_def CheckRaisesContext_init_def log_failure_raises soft_def)
  have k: "check\<lparr>msg := PyNone\<rparr> = check" "?R\<lparr>raises_msg := PyNone\<rparr> = ?R"
    by (simp_all add: check_def raises_def CheckRaisesContext_init_def)
  note t1 = unexpected_exception_handling[OF n, where func = "raising ?T" and args = "()"
      and g = soft and ga = soft and rp = id and stk = direct_stack,
      THEN conjunct1, rule_format, OF r]
  note t2 = unexpected_exception_handling[OF n, where block = "raising ?T ()"
      and g = soft and ga = soft and rp = id and stk = check_stack and self = check,
      THEN conjunct2, THEN conjunct1, rule_format, OF r]
  note t3 = unexpected_exception_handling[OF n, where block = "raising ?T ()"
      and g = "set_stop_on_fail True soft" and ga = "set_stop_on_fail True soft" and rp = id
      and stk = raises_stack and ctx = ?R,
      THEN conjunct2, THEN conjunct2, THEN conjunct1, rule_format, OF c]
  note t4 = unexpected_exception_handling[OF n, where block = "raising ?T ()"
      and g = soft and ga = soft and gb = ?G and rp = id and stk = raises_stack and ctx = ?R,
      THEN conjunct2, THEN conjunct2, THEN conjunct2, rule_format, OF d, THEN conjunct1]
  from n t1 t2 u st t3 ns t4 show ?thesis unfolding k by blast
qed

text \<open>
  Claim C6, as amended. When the block of an exception-expectation scope ends without an
  exception, the exit leaves the failure log unchanged in strict mode; in non-strict mode
  it calls \<open>log_failure\<close> with the configured message and, when that returns, the log has
  grown by exactly one record (with the configured message, or no message text) and
  \<open>__exit__\<close> returns \<open>True\<close>.
\<close>

theorem raises_clean_exit:
  "(stop_on_fail g \<longrightarrow>
      get_failures (snd (snd (CheckRaisesContext_exit rp stk ctx None g))) = get_failures g)
   \<and> (\<not> stop_on_fail g \<and> log_failure rp stk (raises_msg ctx) g = Inr g' \<longrightarrow>
      CheckRaisesContext_exit rp stk ctx None g = (Inr (PyBool True), ctx\<lparr>raises_msg := PyNone\<rparr>, g')
      \<and> (\<exists>trace. get_failures g' = get_failures g @
            [''FAILURE: '' @ (if truthy (raises_msg ctx) then py_str (raises_msg ctx) else []) @
             [CHR 0x0A] @ trace]))"
proof (intro conjI impI)
  assume "stop_on_fail g"
  then show "get_failures (snd (snd (CheckRaisesContext_exit rp stk ctx None g))) = get_failures g"
    by (simp add: CheckRaisesContext_exit_def exc_matches_def)
next
  assume a: "\<not> stop_on_fail g \<and> log_failure rp stk (raises_msg ctx) g = Inr g'"
  then show "CheckRaisesContext_exit rp stk ctx None g =
      (Inr (PyBool True), ctx\<lparr>raises_msg := PyNone\<rparr>, g')"
    by (auto simp: CheckRaisesContext_exit_def exc_matches_def exc_val_def)
  from a have "log_failure rp stk (raises_msg ctx) g = Inr g'" by simp
  from log_failure_appends[OF this]
  show "\<exists>trace. get_failures g' = get_failures g @
            [''FAILURE: '' @ (if truthy (raises_msg ctx) then py_str (raises_msg ctx) else []) @
             [CHR 0x0A] @ trace]" .
qed

theorem raises_clean_exit_counterexample:
  "\<not> stop_on_fail soft
   \<and> CheckRaisesContext_exit id raises_stack (raises [ValueError] PyNone) None soft =
       (Inr (PyBool True), raises [ValueError] PyNone, \<lparr>stop_on_fail = False, failures =
          [''FAILURE: '' @ [CHR 0x0A] @ ''test_a.py:9 in test_a() -> g()'']\<rparr>)
   \<and> get_failures (snd (snd (CheckRaisesContext_exit id raises_stack (raises [ValueError] PyNone)
        None soft))) \<noteq> get_failures soft"
  by (simp add: CheckRaisesContext_exit_def exc_matches_def exc_val_def
      raises_def CheckRaisesContext_init_def soft_def log_failure_raises get_failures_def)

theorem raises_clean_exit_witness:
  "stop_on_fail (set_stop_on_fail True soft)
   \<and> get_failures (snd (snd (CheckRaisesContext_exit id raises_stack
        (raises [ValueError] (PyStr ''must fail'')) None (set_stop_on_fail True soft)))) =
       get_failures (set_stop_on_fail True soft)
   \<and> \<not> stop_on_fail soft
   \<and> CheckRaisesContext_exit id raises_stack (raises [ValueError] (PyStr ''must fail'')) None soft =
       (Inr (PyBool True), raises [ValueError] PyNone, \<lparr>stop_on_fail = False, failures =
          [''FAILURE: must fail'' @ [CHR 0x0A] @ ''test_a.py:9 in test_a() -> g()'']\<rparr>)"
proof -
  let ?R = "raises [ValueError] (PyStr ''must fail'')"
  let ?G = "\<lparr>stop_on_fail = False, failures =
          [''FAILURE: must fail'' @ [CHR 0x0A] @ ''test_a.py:9 in test_a() -> g()'']\<rparr>"
  have st: "stop_on_fail (set_stop_on_fail True soft)" by (simp add: set_stop_on_fail_def)
  have ns: "\<not> stop_on_fail soft" by (simp add: soft_def)
  have a: "\<not> stop_on_fail soft \<and> log_failure id raises_stack (raises_msg ?R) soft = Inr ?G"
    by (simp add: soft_def raises_def CheckRaisesContext_init_def log_failure_raises)
  have k: "?R\<lparr>raises_msg := PyNone\<rparr> = raises [ValueError] PyNone"
    by (simp add: raises_def CheckRaisesContext_init_def)
  note t1 = raises_clean_exit[where g = "set_stop_on_fail True soft" and rp = id
      and stk = raises_stack and ctx = ?R, THEN conjunct1, rule_format, OF st]
  note t2 = raises_clean_exit[where g = soft and g' = ?G and rp = id
      and stk = raises_stack and ctx = ?R, THEN conjunct2, rule_format, OF a, THEN conjunct1]
  from st t1 ns t2 show ?thesis unfolding k by blast
qed

text \<open>
  Claim C7 does not hold of \<open>__call__\<close>: it calls the callable outside any \<open>with\<close>
  statement or handler. For a scope that expects \<open>ValueError\<close>, in non-strict mode, a
  callable raising \<open>ValueError\<close> makes the call raise \<open>ValueError\<close>, where the \<open>with\<close> form
  suppresses it; a callable raising \<open>TypeError\<close> makes the call raise \<open>TypeError\<close> with
  nothing logged, where the \<open>with\<close> form logs one failure and suppresses it.
\<close>

theorem raises_call_propagates:
  "CheckRaisesContext_call (raises [ValueError] PyNone) (raising (Exc ValueError ''bad'' True)) ()
      PyNone soft = (Inl (Exc ValueError ''bad'' True), raises [ValueError] PyNone, soft)
   \<and> with_stmt (CheckRaisesContext_exit id raises_stack) (raises [ValueError] PyNone)
      (raising (Exc ValueError ''bad'' True) ()) soft = (Inr (), raises [ValueError] PyNone, soft)
   \<and> CheckRaisesContext_call (raises [ValueError] PyNone) (raising (Exc TypeError ''worse'' True)) ()
      PyNone soft = (Inl (Exc TypeError ''worse'' True), raises [ValueError] PyNone, soft)
   \<and> with_stmt (CheckRaisesContext_exit id raises_stack) (raises [ValueError] PyNone)
      (raising (Exc TypeError ''worse'' True) ()) soft =
        (Inr (), raises [ValueError] PyNone, \<lparr>stop_on_fail = False, failures =
           [''FAILURE: worse'' @ [CHR 0x0A] @ ''test_a.py:9 in test_a() -> g()'']\<rparr>)"
  by (simp add: CheckRaisesContext_call_def with_stmt_def CheckRaisesContext_exit_def
      exc_matches_def exc_val_def raising_def raises_def CheckRaisesContext_init_def
      issubclass_def soft_def log_failure_raises)




end
